theory Spec2Isabelle
  imports Main "HOL-Library.Sublist" "HOL-Library.AList"
begin

section \<open>JavaScript values, thrown values and outcomes\<close>

text \<open>
  The program is TypeScript on Node: \<open>src/auth.ts\<close> (the OAuth login with a loopback
  callback server) and \<open>src/commands/auth.ts\<close> (the credential file and the decision which
  of cache, refresh and login to use). Values read from the credential file or returned by
  the OIDC library are JavaScript values; numbers are modelled as integers.
  Calls to \<open>log\<close> have no influence on control flow or on the file and are left out.
\<close>

datatype jsval =
    JUndefined
  | JNull
  | JBool bool
  | JNum int
  | JStr string
  | JArr "jsval list"
  | JObj "(string \<times> jsval) list"

text \<open>An object (a \<open>TokenSet\<close>, issuer metadata) is the list of its own enumerable properties.\<close>

type_synonym js_object = "(string \<times> jsval) list"

fun truthy :: "jsval \<Rightarrow> bool" where
  "truthy JUndefined = False"
| "truthy JNull = False"
| "truthy (JBool b) = b"
| "truthy (JNum n) = (n \<noteq> 0)"
| "truthy (JStr s) = (s \<noteq> [])"
| "truthy (JArr xs) = True"
| "truthy (JObj kvs) = True"

text \<open>\<open>a || b\<close>\<close>

definition js_or :: "jsval \<Rightarrow> jsval \<Rightarrow> jsval" where
  "js_or a b = (if truthy a then a else b)"

text \<open>\<open>obj.k\<close>: a missing property reads as \<open>undefined\<close>.\<close>

definition get_prop :: "js_object \<Rightarrow> string \<Rightarrow> jsval" where
  "get_prop obj k = (case map_of obj k of None \<Rightarrow> JUndefined | Some v \<Rightarrow> v)"

text \<open>\<open>{...obj, k: v}\<close>: an existing key keeps its place, a new key goes last.\<close>

definition spread_with :: "js_object \<Rightarrow> string \<Rightarrow> jsval \<Rightarrow> js_object" where
  "spread_with obj k v = AList.update k v obj"

text \<open>
  A thrown value: an \<open>Error\<close> object with its message and its optional \<open>code\<close> property, or
  any other (non-nullish) value, of which only a \<open>code\<close> property can matter.
  \<open>is_Error e\<close> is \<open>e instanceof Error\<close>.
\<close>

datatype thrown =
    is_Error: JsError (message: string) (code: "string option")
  | NonError (code: "string option")

text \<open>
  What a call that is awaited comes to: it returns, it throws, or its promise never
  settles (\<open>Pending\<close>: only \<open>auth\<close> can produce it, when no callback request resolves it).
\<close>

datatype 'a outcome = Returned 'a | Threw thrown | Pending

text \<open>\<open>s.includes(p)\<close>\<close>

fun str_includes :: "string \<Rightarrow> string \<Rightarrow> bool" where
  "str_includes [] p = (p = [])"
| "str_includes (c # cs) p = (prefix p (c # cs) \<or> str_includes cs p)"

text \<open>\<open>u?.startsWith(p)\<close> used as a condition: \<open>undefined\<close> is falsy.\<close>

definition startsWith_opt :: "string option \<Rightarrow> string \<Rightarrow> bool" where
  "startsWith_opt u p = (case u of None \<Rightarrow> False | Some s \<Rightarrow> prefix p s)"

text \<open>\<open>xs.join(sep)\<close>\<close>

fun join_with :: "string \<Rightarrow> string list \<Rightarrow> string" where
  "join_with sep [] = []"
| "join_with sep [x] = x"
| "join_with sep (x # y # ys) = x @ sep @ join_with sep (y # ys)"

text \<open>A port number in a template literal: its decimal digits.\<close>

definition digit :: "nat \<Rightarrow> char" where
  "digit d = char_of (48 + d)"

fun decimal :: "nat \<Rightarrow> string" where
  "decimal n = (if n < 10 then [digit n] else decimal (n div 10) @ [digit (n mod 10)])"

declare decimal.simps [simp del]

section \<open>Data of the program and of its collaborators\<close>

type_synonym issuer = js_object

record ClientMetadata =
  token_endpoint_auth_method :: string
  client_id :: string
  redirect_uris :: "string list"
  response_types :: "string list"

record AuthorizationParameters =
  scope :: string
  state :: string
  code_challenge :: string
  code_challenge_method :: string

text \<open>The checks object \<open>{ code_verifier, state }\<close> handed to \<open>client.callback\<close>.\<close>

record CallbackChecks =
  code_verifier :: string
  checks_state :: string

text \<open>An incoming HTTP request; \<open>url\<close> may be undefined.\<close>

record request =
  url :: "string option"
  http_method :: string

text \<open>
  \<open>getApiClient\<close> (\<open>src/api.ts\<close>) is not among the sources: the client it returns is
  represented by the configuration it was built from.
\<close>

record Api =
  client_apiKey :: jsval
  client_apiHost :: string

definition getApiClient :: "jsval \<Rightarrow> string \<Rightarrow> Api" where
  "getApiClient k h = \<lparr>client_apiKey = k, client_apiHost = h\<rparr>"

text \<open>
  The arguments object: \<open>AuthProps\<close> of \<open>commands/auth.ts\<close> with the three fields
  \<open>ensureAuth\<close> adds. \<open>argv\<close> is the field \<open>_\<close> (the positional arguments).
\<close>

record Props =
  argv :: "jsval list"
  configDir :: string
  oauthHost :: string
  apiHost :: string
  clientId :: string
  forceAuth :: bool
  apiKey :: jsval
  apiClient :: Api
  help_flag :: bool

text \<open>What the program does to the outside, in order.\<close>

datatype event =
    Discover string
  | Refresh ClientMetadata js_object
  | Listen nat
  | AuthorizationUrl ClientMetadata AuthorizationParameters
  | OpenBrowser string
  | Respond nat
  | Callback ClientMetadata string request CallbackChecks
  | ServerClose
  | GetCurrentUserInfo Api
  | WriteFile string string nat

text \<open>The file system (path to contents) and the events so far.\<close>

record world =
  files :: "string \<rightharpoonup> string"
  trace :: "event list"

definition now :: "world \<Rightarrow> nat" where
  "now st = length (trace st)"

definition emit :: "event \<Rightarrow> world \<Rightarrow> world" where
  "emit ev st = st\<lparr>trace := trace st @ [ev]\<rparr>"

text \<open>The events recorded between an earlier world and a later one.\<close>

definition events_since :: "world \<Rightarrow> world \<Rightarrow> event list" where
  "events_since st st' = drop (length (trace st)) (trace st')"

text \<open>
  Everything outside the two source files: the environment, the Node built-ins, the
  \<open>openid-client\<close> library, the identity API, and the constants of modules that are not
  among the sources (\<open>isCi\<close> of \<open>env.ts\<close>, \<open>CREDENTIALS_FILE\<close> of \<open>config.ts\<close>).
  A call whose answer can change from one call to the next takes the number of events so
  far as its first argument, so that two calls of the same function may answer differently.
  \<open>readFileSync_fault\<close> and \<open>writeFileSync_fault\<close> are the errors the file system raises
  (permissions, a file that vanished); without a fault the call acts on \<open>files\<close>.
  \<open>client_callback\<close> stands for \<open>client.callbackParams(request)\<close> followed by
  \<open>client.callback(redirect, params, checks)\<close>; \<open>getCurrentUserInfo\<close> answers with the
  \<open>id\<close> of the user (\<open>data.id\<close>); \<open>incoming\<close> are the requests that reach the
  server of \<open>auth\<close> while it waits, in their order.
\<close>

record env =
  isCi :: bool
  CREDENTIALS_FILE :: string
  path_join :: "string \<Rightarrow> string \<Rightarrow> string"
  readFileSync_fault :: "nat \<Rightarrow> string \<Rightarrow> thrown option"
  writeFileSync_fault :: "nat \<Rightarrow> string \<Rightarrow> thrown option"
  JSON_parse :: "string \<Rightarrow> thrown + jsval"
  JSON_stringify :: "js_object \<Rightarrow> string"
  new_TokenSet :: "jsval \<Rightarrow> js_object"
  expired :: "nat \<Rightarrow> js_object \<Rightarrow> bool"
  Issuer_discover :: "nat \<Rightarrow> string \<Rightarrow> thrown + issuer"
  client_refresh :: "nat \<Rightarrow> issuer \<Rightarrow> ClientMetadata \<Rightarrow> js_object \<Rightarrow> thrown + js_object"
  server_port :: "nat \<Rightarrow> nat"
  generators_state :: "nat \<Rightarrow> string"
  generators_codeVerifier :: "nat \<Rightarrow> string"
  generators_codeChallenge :: "string \<Rightarrow> string"
  client_authorizationUrl :: "issuer \<Rightarrow> ClientMetadata \<Rightarrow> AuthorizationParameters \<Rightarrow> string"
  incoming :: "request list"
  client_callback ::
    "nat \<Rightarrow> issuer \<Rightarrow> ClientMetadata \<Rightarrow> string \<Rightarrow> request \<Rightarrow> CallbackChecks \<Rightarrow> thrown + js_object"
  getCurrentUserInfo :: "nat \<Rightarrow> Api \<Rightarrow> thrown + jsval"

section \<open>Sequencing\<close>

text \<open>\<open>await\<close> (and a plain call that may throw): go on with the value, or stop.\<close>

definition await ::
  "'a outcome \<times> world \<Rightarrow> ('a \<Rightarrow> world \<Rightarrow> 'b outcome \<times> world) \<Rightarrow> 'b outcome \<times> world" where
  "await r k =
     (case r of
        (Returned x, st) \<Rightarrow> k x st
      | (Threw e, st) \<Rightarrow> (Threw e, st)
      | (Pending, st) \<Rightarrow> (Pending, st))"

text \<open>A call to a collaborator: the event is recorded, the answer is the collaborator's.\<close>

definition external :: "event \<Rightarrow> (nat \<Rightarrow> thrown + 'a) \<Rightarrow> world \<Rightarrow> 'a outcome \<times> world" where
  "external ev answer st =
     (case answer (now st) of
        Inl e \<Rightarrow> (Threw e, emit ev st)
      | Inr x \<Rightarrow> (Returned x, emit ev st))"

section \<open>src/auth.ts\<close>

definition REDIRECT_URI :: "nat \<Rightarrow> string" where
  "REDIRECT_URI port = ''http://127.0.0.1:'' @ decimal port @ ''/callback''"

definition DEFAULT_SCOPES :: "string list" where
  "DEFAULT_SCOPES =
     [''openid'', ''offline'', ''offline_access'',
      ''urn:neoncloud:projects:create'', ''urn:neoncloud:projects:read'',
      ''urn:neoncloud:projects:modify'', ''urn:neoncloud:projects:delete'']"

definition refreshToken ::
  "env \<Rightarrow> string \<Rightarrow> string \<Rightarrow> js_object \<Rightarrow> world \<Rightarrow> js_object outcome \<times> world" where
  "refreshToken env host cid tokenSet st =
     await (external (Discover host) (\<lambda>t. Issuer_discover env t host) st) (\<lambda>issuer st1.
       let neonOAuthClient =
             \<lparr>token_endpoint_auth_method = ''none'', client_id = cid,
              redirect_uris = [], response_types = [''code'']\<rparr>
       in external (Refresh neonOAuthClient tokenSet)
            (\<lambda>t. client_refresh env t issuer neonOAuthClient tokenSet) st1)"

text \<open>
  The HTTP server of \<open>auth\<close>: whether it still listens, and the value the promise was
  resolved with (the first \<open>resolve\<close> wins).
\<close>

record server =
  listening :: bool
  resolved :: "js_object option"

text \<open>After \<open>createServer\<close> and \<open>listen\<close>: the server listens, the promise is unsettled.\<close>

definition initial_server :: server where
  "initial_server = \<lparr>listening = True, resolved = None\<rparr>"

text \<open>
  The \<open>request\<close> handler. When \<open>client.callback\<close> rejects, the handler's own promise
  rejects: no response is written, the promise of \<open>auth\<close> is not resolved and the server
  stays open.
\<close>

definition on_request ::
  "env \<Rightarrow> issuer \<Rightarrow> ClientMetadata \<Rightarrow> nat \<Rightarrow> CallbackChecks \<Rightarrow> request
     \<Rightarrow> server \<times> world \<Rightarrow> server \<times> world" where
  "on_request env issuer neonOAuthClient listen_port checks req = (\<lambda>(srv, st).
     if \<not> startsWith_opt (url req) ''/callback'' then (srv, emit (Respond 404) st)
     else
       (case client_callback env (now st) issuer neonOAuthClient (REDIRECT_URI listen_port) req checks of
          Inl e \<Rightarrow>
            (srv, emit (Callback neonOAuthClient (REDIRECT_URI listen_port) req checks) st)
        | Inr tokenSet \<Rightarrow>
            (srv\<lparr>resolved := (case resolved srv of None \<Rightarrow> Some tokenSet | Some first \<Rightarrow> Some first),
                 listening := False\<rparr>,
             emit ServerClose
               (emit (Respond 200)
                 (emit (Callback neonOAuthClient (REDIRECT_URI listen_port) req checks) st)))))"

text \<open>
  Requests are delivered one at a time, each handler running to its end before the next
  request arrives; a server that was closed delivers nothing to the handler.
\<close>

definition deliver ::
  "env \<Rightarrow> issuer \<Rightarrow> ClientMetadata \<Rightarrow> nat \<Rightarrow> CallbackChecks \<Rightarrow> request
     \<Rightarrow> server \<times> world \<Rightarrow> server \<times> world" where
  "deliver env issuer neonOAuthClient listen_port checks req s =
     (if listening (fst s) then on_request env issuer neonOAuthClient listen_port checks req s else s)"

fun serve ::
  "env \<Rightarrow> issuer \<Rightarrow> ClientMetadata \<Rightarrow> nat \<Rightarrow> CallbackChecks \<Rightarrow> request list
     \<Rightarrow> server \<times> world \<Rightarrow> server \<times> world" where
  "serve env issuer neonOAuthClient listen_port checks [] s = s"
| "serve env issuer neonOAuthClient listen_port checks (req # reqs) s =
     serve env issuer neonOAuthClient listen_port checks reqs
       (deliver env issuer neonOAuthClient listen_port checks req s)"

text \<open>The events the HTTP server of one login can produce, for its client, port and checks.\<close>

fun receiver_event :: "ClientMetadata \<Rightarrow> nat \<Rightarrow> CallbackChecks \<Rightarrow> event \<Rightarrow> bool" where
  "receiver_event c p ck (Respond n) = True"
| "receiver_event c p ck ServerClose = True"
| "receiver_event c p ck (Callback c' redirect req ck') = (c' = c \<and> redirect = REDIRECT_URI p \<and> ck' = ck)"
| "receiver_event c p ck ev = False"

definition auth :: "env \<Rightarrow> string \<Rightarrow> string \<Rightarrow> world \<Rightarrow> js_object outcome \<times> world" where
  "auth env host cid st =
     await (external (Discover host) (\<lambda>t. Issuer_discover env t host) st) (\<lambda>issuer st1.
       let listen_port = server_port env (now st1);
           st2 = emit (Listen listen_port) st1;
           neonOAuthClient =
             \<lparr>token_endpoint_auth_method = ''none'', client_id = cid,
              redirect_uris = [REDIRECT_URI listen_port], response_types = [''code'']\<rparr>;
           state_value = generators_state env (now st2);
           codeVerifier = generators_codeVerifier env (now st2);
           codeChallenge = generators_codeChallenge env codeVerifier;
           params =
             \<lparr>scope = join_with '' '' DEFAULT_SCOPES, state = state_value,
              code_challenge = codeChallenge, code_challenge_method = ''S256''\<rparr>;
           authUrl = client_authorizationUrl env issuer neonOAuthClient params;
           st3 = emit (OpenBrowser authUrl) (emit (AuthorizationUrl neonOAuthClient params) st2);
           checks = \<lparr>code_verifier = codeVerifier, checks_state = state_value\<rparr>;
           served = serve env issuer neonOAuthClient listen_port checks (incoming env)
                    (initial_server, st3)
       in (case resolved (fst served) of
             Some tokenSet \<Rightarrow> (Returned tokenSet, snd served)
           | None \<Rightarrow> (Pending, snd served)))"

section \<open>src/commands/auth.ts\<close>

definition existsSync :: "world \<Rightarrow> string \<Rightarrow> bool" where
  "existsSync st path = (files st path \<noteq> None)"

definition ENOENT :: "string \<Rightarrow> thrown" where
  "ENOENT path = JsError (''ENOENT: no such file or directory, open '' @ path) (Some ''ENOENT'')"

definition readFileSync :: "env \<Rightarrow> string \<Rightarrow> world \<Rightarrow> string outcome \<times> world" where
  "readFileSync env path st =
     (case readFileSync_fault env (now st) path of
        Some e \<Rightarrow> (Threw e, st)
      | None \<Rightarrow>
          (case files st path of
             None \<Rightarrow> (Threw (ENOENT path), st)
           | Some contents \<Rightarrow> (Returned contents, st)))"

definition writeFileSync :: "env \<Rightarrow> string \<Rightarrow> string \<Rightarrow> nat \<Rightarrow> world \<Rightarrow> unit outcome \<times> world" where
  "writeFileSync env path contents mode st =
     (case writeFileSync_fault env (now st) path of
        Some e \<Rightarrow> (Threw e, st)
      | None \<Rightarrow>
          (Returned (),
           emit (WriteFile path contents mode) (st\<lparr>files := (files st)(path \<mapsto> contents)\<rparr>)))"

definition preserveCredentials ::
  "env \<Rightarrow> string \<Rightarrow> js_object \<Rightarrow> Api \<Rightarrow> world \<Rightarrow> unit outcome \<times> world" where
  "preserveCredentials env path credentials client st =
     await (external (GetCurrentUserInfo client) (\<lambda>t. getCurrentUserInfo env t client) st)
       (\<lambda>id st1.
          let contents = JSON_stringify env (spread_with credentials ''user_id'' id)
          in writeFileSync env path contents 448 st1)"

definition authFlow :: "env \<Rightarrow> Props \<Rightarrow> world \<Rightarrow> jsval outcome \<times> world" where
  "authFlow env props st =
     (if \<not> forceAuth props \<and> isCi env
      then (Threw (JsError ''Cannot run interactive auth in CI'' None), st)
      else
        await (auth env (oauthHost props) (clientId props) st) (\<lambda>tokenSet st1.
          let credentialsPath = path_join env (configDir props) (CREDENTIALS_FILE env)
          in await
               (preserveCredentials env credentialsPath tokenSet
                  (getApiClient (js_or (get_prop tokenSet ''access_token'') (JStr [])) (apiHost props)) st1)
               (\<lambda>u st2. (Returned (js_or (get_prop tokenSet ''access_token'') (JStr [])), st2))))"

text \<open>
  The body of the \<open>try\<close> block of \<open>ensureAuth\<close>. \<open>Returned\<close> stands for its two
  \<open>return\<close> statements, which leave \<open>ensureAuth\<close>; \<open>Threw\<close> goes to the \<open>catch\<close> clause.
  The arguments object is mutated in place, so it is returned in every case.
\<close>

definition ensureAuth_try ::
  "env \<Rightarrow> Props \<Rightarrow> string \<Rightarrow> world \<Rightarrow> unit outcome \<times> Props \<times> world" where
  "ensureAuth_try env props credentialsPath st =
     (case readFileSync env credentialsPath st of
        (Threw e, st1) \<Rightarrow> (Threw e, props, st1)
      | (Pending, st1) \<Rightarrow> (Pending, props, st1)
      | (Returned contents, st1) \<Rightarrow>
          (case JSON_parse env contents of
             Inl e \<Rightarrow> (Threw e, props, st1)
           | Inr parsed \<Rightarrow>
               let tokenSet = new_TokenSet env parsed in
               if expired env (now st1) tokenSet then
                 (case refreshToken env (oauthHost props) (clientId props) tokenSet st1 of
                    (Threw err, st2) \<Rightarrow> (Threw (JsError ''AUTH_REFRESH_FAILED'' None), props, st2)
                  | (Pending, st2) \<Rightarrow> (Pending, props, st2)
                  | (Returned refreshedTokenSet, st2) \<Rightarrow>
                      let props1 = props\<lparr>apiKey :=
                                     js_or (get_prop refreshedTokenSet ''access_token'') (JStr ''UNKNOWN'')\<rparr>;
                          props2 = props1\<lparr>apiClient := getApiClient (apiKey props1) (apiHost props1)\<rparr>
                      in (case preserveCredentials env credentialsPath refreshedTokenSet
                                 (apiClient props2) st2 of
                            (r, st3) \<Rightarrow> (r, props2, st3)))
               else
                 let token = js_or (get_prop tokenSet ''access_token'') (JStr ''UNKNOWN'');
                     props1 = props\<lparr>apiKey := token\<rparr>
                 in (Returned (),
                     props1\<lparr>apiClient := getApiClient (apiKey props1) (apiHost props1)\<rparr>, st1)))"

text \<open>
  \<open>props.apiKey = await authFlow(props)\<close> followed by the last statement of
  \<open>ensureAuth\<close>, \<open>props.apiClient = getApiClient({...})\<close>: the path shared by the
  \<open>catch\<close> clause and the \<open>else\<close> branch.
\<close>

definition login_then_client :: "env \<Rightarrow> Props \<Rightarrow> world \<Rightarrow> unit outcome \<times> Props \<times> world" where
  "login_then_client env props st =
     (case authFlow env props st of
        (Returned key, st1) \<Rightarrow>
          let props1 = props\<lparr>apiKey := key\<rparr>
          in (Returned (), props1\<lparr>apiClient := getApiClient (apiKey props1) (apiHost props1)\<rparr>, st1)
      | (Threw e, st1) \<Rightarrow> (Threw e, props, st1)
      | (Pending, st1) \<Rightarrow> (Pending, props, st1))"

text \<open>The condition of the \<open>catch\<close> clause under which the login is started.\<close>

definition starts_login :: "thrown \<Rightarrow> bool" where
  "starts_login e =
     ((is_Error e \<and> str_includes (message e) ''AUTH_REFRESH_FAILED'') \<or> code e = Some ''ENOENT'')"

definition ensureAuth :: "env \<Rightarrow> Props \<Rightarrow> world \<Rightarrow> unit outcome \<times> Props \<times> world" where
  "ensureAuth env props st =
     (if argv props = [] \<or> help_flag props then (Returned (), props, st)
      else if truthy (apiKey props) \<or> hd (argv props) = JStr ''auth'' then
        (Returned (), props\<lparr>apiClient := getApiClient (apiKey props) (apiHost props)\<rparr>, st)
      else
        let credentialsPath = path_join env (configDir props) (CREDENTIALS_FILE env) in
        if existsSync st credentialsPath then
          (case ensureAuth_try env props credentialsPath st of
             (Threw e, props1, st1) \<Rightarrow>
               if starts_login e then login_then_client env props1 st1
               else (Threw e, props1, st1)
           | (Returned u, props1, st1) \<Rightarrow> (Returned u, props1, st1)
           | (Pending, props1, st1) \<Rightarrow> (Pending, props1, st1))
        else login_then_client env props st)"

text \<open>The invocations that reach the credential file: a command, no help, no API key.\<close>

definition reaches_file :: "Props \<Rightarrow> bool" where
  "reaches_file props =
     (argv props \<noteq> [] \<and> \<not> help_flag props \<and> \<not> truthy (apiKey props) \<and> hd (argv props) \<noteq> JStr ''auth'')"

section \<open>A concrete environment\<close>

text \<open>
  One environment in which every collaborator is a computable function, for evaluating
  the definitions above on concrete inputs. Its clock stands at 1000; its serialiser writes
  objects in JSON notation (without escapes), and its parser knows the three credential
  files below and rejects every other text with a syntax error.
\<close>

fun render :: "jsval \<Rightarrow> string" where
  "render JUndefined = ''undefined''"
| "render JNull = ''null''"
| "render (JBool b) = (if b then ''true'' else ''false'')"
| "render (JNum n) = (if n < 0 then ''-'' @ decimal (nat (- n)) else decimal (nat n))"
| "render (JStr s) = [CHR 0x22] @ s @ [CHR 0x22]"
| "render (JArr xs) = ''['' @ join_with '','' (map render xs) @ '']''"
| "render (JObj kvs) =
     ''{'' @ join_with '','' (map (\<lambda>(k, v). [CHR 0x22] @ k @ [CHR 0x22] @ '':'' @ render v) kvs) @ ''}''"

definition demo_stringify :: "js_object \<Rightarrow> string" where
  "demo_stringify obj = render (JObj (filter (\<lambda>(k, v). v \<noteq> JUndefined) obj))"

definition demo_cached :: js_object where
  "demo_cached =
     [(''access_token'', JStr ''tok0''), (''refresh_token'', JStr ''r0''),
      (''expires_at'', JNum 2000), (''user_id'', JStr ''u1'')]"

definition demo_stale :: js_object where
  "demo_stale =
     [(''access_token'', JStr ''old''), (''refresh_token'', JStr ''r0''),
      (''expires_at'', JNum 500), (''scope'', JStr ''legacy''), (''user_id'', JStr ''u0'')]"

definition demo_refreshed :: js_object where
  "demo_refreshed =
     [(''access_token'', JStr ''tok1''), (''refresh_token'', JStr ''r1''), (''expires_at'', JNum 5000)]"

definition demo_login_tokens :: js_object where
  "demo_login_tokens = [(''access_token'', JStr ''tok2''), (''expires_at'', JNum 6000)]"

text \<open>A token set without an access token.\<close>

definition demo_tokenless :: js_object where
  "demo_tokenless = [(''expires_at'', JNum 3000)]"

definition demo_parse :: "string \<Rightarrow> thrown + jsval" where
  "demo_parse s =
     (if s = demo_stringify demo_cached then Inr (JObj demo_cached)
      else if s = demo_stringify demo_stale then Inr (JObj demo_stale)
      else if s = demo_stringify demo_tokenless then Inr (JObj demo_tokenless)
      else Inl (JsError ''Unexpected token in JSON'' None))"

definition demo_TokenSet :: "jsval \<Rightarrow> js_object" where
  "demo_TokenSet v = (case v of JObj kvs \<Rightarrow> kvs | _ \<Rightarrow> [])"

definition demo_expired :: "js_object \<Rightarrow> bool" where
  "demo_expired tokenSet = (case get_prop tokenSet ''expires_at'' of JNum n \<Rightarrow> n \<le> 1000 | _ \<Rightarrow> False)"

definition good_callback :: request where
  "good_callback = \<lparr>url = Some ''/callback?code=abc&state=S'', http_method = ''GET''\<rparr>"

definition favicon :: request where
  "favicon = \<lparr>url = Some ''/favicon.ico'', http_method = ''GET''\<rparr>"

definition demo_env :: env where
  "demo_env =
     \<lparr>isCi = False,
      CREDENTIALS_FILE = ''credentials.json'',
      path_join = (\<lambda>dir file. dir @ ''/'' @ file),
      readFileSync_fault = (\<lambda>t path. None),
      writeFileSync_fault = (\<lambda>t path. None),
      JSON_parse = demo_parse,
      JSON_stringify = demo_stringify,
      new_TokenSet = demo_TokenSet,
      expired = (\<lambda>t. demo_expired),
      Issuer_discover = (\<lambda>t host. Inr [(''issuer'', JStr host)]),
      client_refresh = (\<lambda>t issuer client tokenSet. Inr demo_refreshed),
      server_port = (\<lambda>t. 40123),
      generators_state = (\<lambda>t. ''S''),
      generators_codeVerifier = (\<lambda>t. ''v3r1f13r''),
      generators_codeChallenge = (\<lambda>verifier. ''S256:'' @ verifier),
      client_authorizationUrl = (\<lambda>issuer client params.
        ''https://oauth/auth?state='' @ state params @ ''&code_challenge='' @ code_challenge params),
      incoming = [favicon, good_callback, favicon],
      client_callback = (\<lambda>t issuer client redirect req checks.
        if url req = Some ''/callback?code=abc&state=S'' then Inr demo_login_tokens
        else Inl (JsError ''state mismatch'' None)),
      getCurrentUserInfo = (\<lambda>t client. Inr (JStr ''u1''))\<rparr>"

definition demo_props :: Props where
  "demo_props =
     \<lparr>argv = [JStr ''projects'', JStr ''list''],
      configDir = ''/cfg'',
      oauthHost = ''https://oauth'',
      apiHost = ''https://api'',
      clientId = ''neonctl'',
      forceAuth = False,
      apiKey = JStr [],
      apiClient = getApiClient (JStr []) ''https://api'',
      help_flag = False\<rparr>"

definition demo_path :: string where
  "demo_path = ''/cfg/credentials.json''"

definition no_file :: world where
  "no_file = \<lparr>files = Map.empty, trace = []\<rparr>"

definition file_with :: "string \<Rightarrow> world" where
  "file_with contents = \<lparr>files = [demo_path \<mapsto> contents], trace = []\<rparr>"

text \<open>Variants of the environment: one collaborator changed at a time.\<close>

definition demo_env_ci :: env where
  "demo_env_ci = demo_env\<lparr>isCi := True\<rparr>"

definition demo_env_no_identity :: env where
  "demo_env_no_identity =
     demo_env\<lparr>getCurrentUserInfo :=
       (\<lambda>t client. Inl (JsError ''Request failed with status code 401'' (Some ''ERR_BAD_REQUEST'')))\<rparr>"

text \<open>
  The error Node raises when a file may not be read: its message ends with the path
  between single quotes.
\<close>

definition EACCES :: "string \<Rightarrow> thrown" where
  "EACCES path =
     JsError (''EACCES: permission denied, open '' @ [CHR 0x27] @ path @ [CHR 0x27]) (Some ''EACCES'')"

definition demo_env_unreadable :: env where
  "demo_env_unreadable = demo_env\<lparr>readFileSync_fault := (\<lambda>t path. Some (EACCES path))\<rparr>"

text \<open>The same invocation with a configuration directory of another name.\<close>

definition demo_props_other_dir :: Props where
  "demo_props_other_dir = demo_props\<lparr>configDir := ''/home/u/AUTH_REFRESH_FAILED''\<rparr>"

definition other_path :: string where
  "other_path = ''/home/u/AUTH_REFRESH_FAILED/credentials.json''"

definition other_file_with :: "string \<Rightarrow> world" where
  "other_file_with contents = \<lparr>files = [other_path \<mapsto> contents], trace = []\<rparr>"

definition demo_env_refresh_fails :: env where
  "demo_env_refresh_fails =
     demo_env\<lparr>client_refresh := (\<lambda>t issuer client tokenSet. Inl (JsError ''invalid_grant'' None))\<rparr>"

definition demo_env_refresh_and_identity_fail :: env where
  "demo_env_refresh_and_identity_fail =
     demo_env_no_identity\<lparr>client_refresh :=
       (\<lambda>t issuer client tokenSet. Inl (JsError ''invalid_grant'' None))\<rparr>"

definition demo_env_refresh_tokenless :: env where
  "demo_env_refresh_tokenless =
     demo_env\<lparr>client_refresh := (\<lambda>t issuer client tokenSet. Inr demo_tokenless)\<rparr>"

definition demo_env_login_tokenless :: env where
  "demo_env_login_tokenless =
     demo_env\<lparr>client_callback := (\<lambda>t issuer client redirect req checks. Inr demo_tokenless)\<rparr>"

definition demo_env_tokenless_no_identity :: env where
  "demo_env_tokenless_no_identity =
     demo_env_no_identity\<lparr>client_callback :=
       (\<lambda>t issuer client redirect req checks. Inr demo_tokenless)\<rparr>"



text \<open>The client, port and checks of a login in the concrete environment.\<close>

definition demo_client :: ClientMetadata where
  "demo_client =
     \<lparr>token_endpoint_auth_method = ''none'', client_id = ''neonctl'',
      redirect_uris = [REDIRECT_URI 40123], response_types = [''code'']\<rparr>"

definition demo_checks :: CallbackChecks where
  "demo_checks = \<lparr>code_verifier = ''v3r1f13r'', checks_state = ''S''\<rparr>"

definition demo_params :: AuthorizationParameters where
  "demo_params =
     \<lparr>scope = join_with '' '' DEFAULT_SCOPES, state = ''S'',
      code_challenge = ''S256:v3r1f13r'', code_challenge_method = ''S256''\<rparr>"

section \<open>Properties\<close>

subsection \<open>Basic facts\<close>

lemma await_simps [simp]:
  "await (Returned x, st) k = k x st"
  "await (Threw e, st) k = (Threw e, st)"
  "await (Pending, st) k = (Pending, st)"
  by (simp_all add: await_def)

lemma now_emit [simp]: "now (emit ev st) = Suc (now st)"
  by (simp add: now_def emit_def)

lemma files_emit [simp]: "files (emit ev st) = files st"
  by (simp add: emit_def)

lemma trace_emit [simp]: "trace (emit ev st) = trace st @ [ev]"
  by (simp add: emit_def)

lemma external_Inl [simp]: "answer (now st) = Inl e \<Longrightarrow> external ev answer st = (Threw e, emit ev st)"
  by (simp add: external_def)

lemma external_Inr [simp]: "answer (now st) = Inr x \<Longrightarrow> external ev answer st = (Returned x, emit ev st)"
  by (simp add: external_def)


lemma get_prop_spread_with:
  "get_prop (spread_with obj k v) k' = (if k' = k then v else get_prop obj k')"
  by (simp add: get_prop_def spread_with_def update_conv')

lemma files_after_external: "external ev answer st = (r, st') \<Longrightarrow> files st' = files st"
  by (auto simp: external_def split: sum.splits)


lemma refreshToken_not_Pending:
  "fst (refreshToken env host cid tokenSet st) \<noteq> Pending"
  by (auto simp: refreshToken_def external_def Let_def split: sum.splits)

lemma login_then_client_Returned:
  "authFlow env props st = (Returned key, st1) \<Longrightarrow>
   login_then_client env props st =
     (Returned (), props\<lparr>apiKey := key, apiClient := getApiClient key (apiHost props)\<rparr>, st1)"
  by (simp add: login_then_client_def)

lemma login_then_client_Threw:
  "login_then_client env props st = (Threw e, p, s) \<Longrightarrow> authFlow env props st = (Threw e, s)"
  by (auto simp: login_then_client_def Let_def split: prod.splits outcome.splits)

lemma starts_login_sentinel: "starts_login (JsError ''AUTH_REFRESH_FAILED'' None)"
  by (simp add: starts_login_def)


subsection \<open>Facts about the concrete environment\<close>

lemma demo_reaches_file: "reaches_file demo_props"
  by (simp add: reaches_file_def demo_props_def)

lemma demo_path_is: "path_join demo_env (configDir demo_props) (CREDENTIALS_FILE demo_env) = demo_path"
  by (simp add: demo_env_def demo_props_def demo_path_def)

lemma demo_stale_differs: "demo_stringify demo_stale \<noteq> demo_stringify demo_cached"
  by (simp add: demo_stringify_def demo_stale_def demo_cached_def)

lemma demo_parse_cached: "JSON_parse demo_env (demo_stringify demo_cached) = Inr (JObj demo_cached)"
  by (simp add: demo_env_def demo_parse_def)

lemma demo_parse_stale: "JSON_parse demo_env (demo_stringify demo_stale) = Inr (JObj demo_stale)"
  by (simp add: demo_env_def demo_parse_def demo_stale_differs)

lemma demo_parse_tokenless: "JSON_parse demo_env (demo_stringify demo_tokenless) = Inr (JObj demo_tokenless)"
  by (simp add: demo_env_def demo_parse_def demo_stringify_def demo_stale_def demo_cached_def
      demo_tokenless_def)

lemma demo_parse_garbage: "JSON_parse demo_env ''{not json'' = Inl (JsError ''Unexpected token in JSON'' None)"
  by (simp add: demo_env_def demo_parse_def demo_stringify_def demo_stale_def demo_cached_def)

lemma demo_stale_expired: "expired demo_env t demo_stale" "expired demo_env_refresh_fails t demo_stale"
  "expired demo_env_refresh_tokenless t demo_stale"
  by (simp_all add: demo_env_def demo_env_refresh_fails_def demo_env_refresh_tokenless_def
      demo_expired_def get_prop_def demo_stale_def)

lemma demo_tokenless_fresh: "\<not> expired demo_env t demo_tokenless"
  by (simp add: demo_env_def demo_expired_def get_prop_def demo_tokenless_def)

lemma demo_tokenless_no_token: "\<not> truthy (get_prop demo_tokenless ''access_token'')"
  by (simp add: get_prop_def demo_tokenless_def)

lemma not_sentinel_syntax_error: "\<not> starts_login (JsError ''Unexpected token in JSON'' None)"
  by (simp add: starts_login_def)

lemma demo_login_from_nothing:
  "fst (login_then_client demo_env demo_props no_file) = Returned ()
   \<and> apiKey (fst (snd (login_then_client demo_env demo_props no_file))) = JStr ''tok2''"
  by (simp add: login_then_client_def authFlow_def auth_def initial_server_def preserveCredentials_def
      writeFileSync_def deliver_def on_request_def startsWith_opt_def favicon_def
      good_callback_def Let_def demo_env_def demo_props_def demo_login_tokens_def js_or_def
      get_prop_def split: prod.splits)



lemma demo_auth_events:
  "events_since no_file (snd (auth demo_env ''https://oauth'' ''neonctl'' no_file)) =
     [Discover ''https://oauth'', Listen 40123, AuthorizationUrl demo_client demo_params,
      OpenBrowser (client_authorizationUrl demo_env [(''issuer'', JStr ''https://oauth'')]
                     demo_client demo_params),
      Respond 404, Callback demo_client (REDIRECT_URI 40123) good_callback demo_checks,
      Respond 200, ServerClose]"
  by (simp add: auth_def events_since_def external_def deliver_def on_request_def
      startsWith_opt_def favicon_def good_callback_def initial_server_def Let_def
      demo_env_def no_file_def demo_client_def demo_params_def demo_checks_def)


subsection \<open>The credential file is missing or corrupt\<close>

text \<open>
  Claim C1, as amended. For an invocation that reaches the credential file: when the file is
  missing (it does not exist, or reading it fails with code \<open>ENOENT\<close>), \<open>ensureAuth\<close> calls
  \<open>authFlow\<close> (the login, followed by the save of its result) and ends as that call ends.
  When the file is read but is not JSON, \<open>ensureAuth\<close> throws the error of \<open>JSON.parse\<close>
  and the world is unchanged, so no login was started; only a parse error that itself meets
  the condition of the \<open>catch\<close> clause leads to \<open>authFlow\<close>.
\<close>

theorem ensureAuth_missing_or_corrupt:
  assumes "reaches_file props"
    and "path = path_join env (configDir props) (CREDENTIALS_FILE env)"
  shows "(\<not> existsSync st path \<longrightarrow> ensureAuth env props st = login_then_client env props st)
       \<and> (\<forall>e. existsSync st path \<and> readFileSync_fault env (now st) path = Some e \<and> code e = Some ''ENOENT''
              \<longrightarrow> ensureAuth env props st = login_then_client env props st)
       \<and> (\<forall>contents e. files st path = Some contents \<and> readFileSync_fault env (now st) path = None
              \<and> JSON_parse env contents = Inl e
              \<longrightarrow> ensureAuth env props st =
                    (if starts_login e then login_then_client env props st else (Threw e, props, st)))"
  using assms
  by (auto simp: ensureAuth_def reaches_file_def existsSync_def ensureAuth_try_def readFileSync_def
      Let_def starts_login_def)

theorem ensureAuth_missing_or_corrupt_witness:
  "reaches_file demo_props
   \<and> \<not> existsSync no_file demo_path
   \<and> ensureAuth demo_env demo_props no_file = login_then_client demo_env demo_props no_file
   \<and> fst (ensureAuth demo_env demo_props no_file) = Returned ()
   \<and> apiKey (fst (snd (ensureAuth demo_env demo_props no_file))) = JStr ''tok2''
   \<and> files (file_with ''{not json'') demo_path = Some ''{not json''
   \<and> JSON_parse demo_env ''{not json'' = Inl (JsError ''Unexpected token in JSON'' None)
   \<and> ensureAuth demo_env demo_props (file_with ''{not json'') =
       (Threw (JsError ''Unexpected token in JSON'' None), demo_props, file_with ''{not json'')"
proof -
  note facts = ensureAuth_missing_or_corrupt [OF demo_reaches_file demo_path_is [symmetric]]
  have absent: "\<not> existsSync no_file demo_path"
    by (simp add: existsSync_def no_file_def)
  have login: "ensureAuth demo_env demo_props no_file = login_then_client demo_env demo_props no_file"
    using facts [of no_file] absent by blast
  have stored: "files (file_with ''{not json'') demo_path = Some ''{not json''"
    by (simp add: file_with_def)
  have readable: "readFileSync_fault demo_env (now (file_with ''{not json'')) demo_path = None"
    by (simp add: demo_env_def)
  have thrown: "ensureAuth demo_env demo_props (file_with ''{not json'') =
       (Threw (JsError ''Unexpected token in JSON'' None), demo_props, file_with ''{not json'')"
    using facts [of "file_with ''{not json''"] stored readable demo_parse_garbage
      not_sentinel_syntax_error
    by auto
  from demo_reaches_file absent login demo_login_from_nothing stored demo_parse_garbage thrown
  show ?thesis by (simp only: simp_thms)
qed

theorem ensureAuth_corrupt_file_counterexample:
  "reaches_file demo_props
   \<and> existsSync (file_with ''{not json'') (path_join demo_env (configDir demo_props) (CREDENTIALS_FILE demo_env))
   \<and> JSON_parse demo_env ''{not json'' = Inl (JsError ''Unexpected token in JSON'' None)
   \<and> ensureAuth demo_env demo_props (file_with ''{not json'') =
       (Threw (JsError ''Unexpected token in JSON'' None), demo_props, file_with ''{not json'')
   \<and> trace (file_with ''{not json'') = []
   \<and> ensureAuth demo_env demo_props (file_with ''{not json'') \<noteq>
       login_then_client demo_env demo_props (file_with ''{not json'')"
proof -
  have run: "ensureAuth demo_env demo_props (file_with ''{not json'') =
       (Threw (JsError ''Unexpected token in JSON'' None), demo_props, file_with ''{not json'')"
    using demo_parse_garbage
    by (simp add: ensureAuth_def ensureAuth_try_def readFileSync_def existsSync_def Let_def
        starts_login_def demo_env_def demo_props_def demo_path_def file_with_def now_def)
  have login: "fst (login_then_client demo_env demo_props (file_with ''{not json'')) = Returned ()"
    by (simp add: login_then_client_def authFlow_def auth_def initial_server_def preserveCredentials_def
        writeFileSync_def deliver_def on_request_def startsWith_opt_def favicon_def
        good_callback_def Let_def demo_env_def demo_props_def split: prod.splits)
  have differ: "ensureAuth demo_env demo_props (file_with ''{not json'') \<noteq>
       login_then_client demo_env demo_props (file_with ''{not json'')"
  proof
    assume "ensureAuth demo_env demo_props (file_with ''{not json'') =
       login_then_client demo_env demo_props (file_with ''{not json'')"
    then have "fst (ensureAuth demo_env demo_props (file_with ''{not json'')) =
       fst (login_then_client demo_env demo_props (file_with ''{not json''))"
      by simp
    with run login show False by simp
  qed
  have present: "existsSync (file_with ''{not json'')
       (path_join demo_env (configDir demo_props) (CREDENTIALS_FILE demo_env))"
    by (simp add: existsSync_def demo_env_def demo_props_def file_with_def demo_path_def)
  have quiet: "trace (file_with ''{not json'') = []"
    by (simp add: file_with_def)
  from demo_reaches_file present demo_parse_garbage run quiet differ show ?thesis
    by (intro conjI)
qed


subsection \<open>A cached token that has not expired\<close>

text \<open>
  Claim C2, as amended. For an invocation that reaches the credential file: when the file
  exists, is read, parses, and the token set is not expired, \<open>ensureAuth\<close> returns with
  \<open>apiKey\<close> set to \<open>access_token || 'UNKNOWN'\<close>: the cached access token when the file has
  one (a truthy value), the placeholder \<open>'UNKNOWN'\<close> otherwise. In both cases the world is
  unchanged: no discovery, no refresh, no login, no identity lookup and no write took place.
\<close>

theorem ensureAuth_uses_cached_token:
  assumes "reaches_file props"
    and "path = path_join env (configDir props) (CREDENTIALS_FILE env)"
    and "files st path = Some contents"
    and "readFileSync_fault env (now st) path = None"
    and "JSON_parse env contents = Inr parsed"
    and "tokenSet = new_TokenSet env parsed"
    and "\<not> expired env (now st) tokenSet"
  shows "ensureAuth env props st =
           (Returned (),
            props\<lparr>apiKey := js_or (get_prop tokenSet ''access_token'') (JStr ''UNKNOWN''),
                  apiClient := getApiClient (js_or (get_prop tokenSet ''access_token'') (JStr ''UNKNOWN''))
                                 (apiHost props)\<rparr>,
            st)
       \<and> (truthy (get_prop tokenSet ''access_token'') \<longrightarrow>
            js_or (get_prop tokenSet ''access_token'') (JStr ''UNKNOWN'') = get_prop tokenSet ''access_token'')"
  using assms
  by (simp add: ensureAuth_def reaches_file_def existsSync_def ensureAuth_try_def readFileSync_def
      Let_def js_or_def)

theorem ensureAuth_uses_cached_token_witness:
  "ensureAuth demo_env demo_props (file_with (demo_stringify demo_cached)) =
     (Returned (),
      demo_props\<lparr>apiKey := JStr ''tok0'', apiClient := getApiClient (JStr ''tok0'') ''https://api''\<rparr>,
      file_with (demo_stringify demo_cached))
   \<and> trace (file_with (demo_stringify demo_cached)) = []"
  using ensureAuth_uses_cached_token [of demo_props demo_path demo_env
      "file_with (demo_stringify demo_cached)" "demo_stringify demo_cached" "JObj demo_cached" demo_cached]
    demo_reaches_file demo_parse_cached
  by (simp add: demo_env_def demo_props_def demo_path_def file_with_def demo_TokenSet_def
      demo_expired_def get_prop_def demo_cached_def js_or_def)

theorem ensureAuth_cached_without_access_token_counterexample:
  "reaches_file demo_props
   \<and> files (file_with (demo_stringify demo_tokenless)) demo_path = Some (demo_stringify demo_tokenless)
   \<and> JSON_parse demo_env (demo_stringify demo_tokenless) = Inr (JObj demo_tokenless)
   \<and> new_TokenSet demo_env (JObj demo_tokenless) = demo_tokenless
   \<and> \<not> expired demo_env (now (file_with (demo_stringify demo_tokenless))) demo_tokenless
   \<and> get_prop demo_tokenless ''access_token'' = JUndefined
   \<and> fst (ensureAuth demo_env demo_props (file_with (demo_stringify demo_tokenless))) = Returned ()
   \<and> apiKey (fst (snd (ensureAuth demo_env demo_props (file_with (demo_stringify demo_tokenless)))))
       = JStr ''UNKNOWN''
   \<and> apiKey (fst (snd (ensureAuth demo_env demo_props (file_with (demo_stringify demo_tokenless)))))
       \<noteq> get_prop demo_tokenless ''access_token''"
proof -
  let ?w = "file_with (demo_stringify demo_tokenless)"
  have stored: "files ?w demo_path = Some (demo_stringify demo_tokenless)"
    by (simp add: file_with_def)
  have ts: "new_TokenSet demo_env (JObj demo_tokenless) = demo_tokenless"
    by (simp add: demo_env_def demo_TokenSet_def)
  have none: "get_prop demo_tokenless ''access_token'' = JUndefined"
    by (simp add: get_prop_def demo_tokenless_def)
  have readable: "readFileSync_fault demo_env (now ?w) demo_path = None"
    by (simp add: demo_env_def)
  have run: "ensureAuth demo_env demo_props ?w =
      (Returned (),
       demo_props\<lparr>apiKey := JStr ''UNKNOWN'',
                  apiClient := getApiClient (JStr ''UNKNOWN'') (apiHost demo_props)\<rparr>, ?w)"
    using demo_reaches_file demo_path_is stored readable demo_parse_tokenless ts
      demo_tokenless_fresh none
    by (simp add: ensureAuth_def reaches_file_def existsSync_def ensureAuth_try_def
        readFileSync_def Let_def js_or_def)
  have ret: "fst (ensureAuth demo_env demo_props ?w) = Returned ()"
    and key: "apiKey (fst (snd (ensureAuth demo_env demo_props ?w))) = JStr ''UNKNOWN''"
    by (simp_all add: run)
  have other: "apiKey (fst (snd (ensureAuth demo_env demo_props ?w)))
      \<noteq> get_prop demo_tokenless ''access_token''"
    by (simp add: key none)
  from demo_reaches_file stored demo_parse_tokenless ts demo_tokenless_fresh none ret key other
  show ?thesis by (intro conjI)
qed


subsection \<open>An expired token whose refresh fails\<close>

text \<open>
  Claim C3, as amended. For an invocation that reaches the credential file: when the file
  parses, the token set is expired and \<open>refreshToken\<close> throws, \<open>ensureAuth\<close> goes on with
  \<open>authFlow\<close> (the login, followed by the save of its result) and ends as that call ends:
  when \<open>authFlow\<close> returns a key, that is when the login and the save both succeed,
  \<open>ensureAuth\<close> returns with that key as \<open>apiKey\<close>; an error thrown by \<open>ensureAuth\<close> is one
  that \<open>authFlow\<close> threw. The error of the refresh appears nowhere in the result.
\<close>

theorem ensureAuth_refresh_failure_falls_back:
  assumes "reaches_file props"
    and "path = path_join env (configDir props) (CREDENTIALS_FILE env)"
    and "files st path = Some contents"
    and "readFileSync_fault env (now st) path = None"
    and "JSON_parse env contents = Inr parsed"
    and "tokenSet = new_TokenSet env parsed"
    and "expired env (now st) tokenSet"
    and "refreshToken env (oauthHost props) (clientId props) tokenSet st = (Threw err, st2)"
  shows "ensureAuth env props st = login_then_client env props st2
       \<and> (\<forall>key st3. authFlow env props st2 = (Returned key, st3) \<longrightarrow>
            ensureAuth env props st =
              (Returned (), props\<lparr>apiKey := key, apiClient := getApiClient key (apiHost props)\<rparr>, st3))
       \<and> (\<forall>e p s. ensureAuth env props st = (Threw e, p, s) \<longrightarrow> authFlow env props st2 = (Threw e, s))"
proof -
  have eq: "ensureAuth env props st = login_then_client env props st2"
    using assms starts_login_sentinel
    by (simp add: ensureAuth_def reaches_file_def existsSync_def ensureAuth_try_def readFileSync_def
        Let_def)
  show ?thesis
    using eq login_then_client_Returned login_then_client_Threw by auto
qed

theorem ensureAuth_refresh_failure_falls_back_witness:
  "reaches_file demo_props
   \<and> files (file_with (demo_stringify demo_stale)) demo_path = Some (demo_stringify demo_stale)
   \<and> JSON_parse demo_env_refresh_fails (demo_stringify demo_stale) = Inr (JObj demo_stale)
   \<and> expired demo_env_refresh_fails (now (file_with (demo_stringify demo_stale)))
        (new_TokenSet demo_env_refresh_fails (JObj demo_stale))
   \<and> fst (refreshToken demo_env_refresh_fails (oauthHost demo_props) (clientId demo_props)
             (new_TokenSet demo_env_refresh_fails (JObj demo_stale))
             (file_with (demo_stringify demo_stale)))
       = Threw (JsError ''invalid_grant'' None)
   \<and> fst (ensureAuth demo_env_refresh_fails demo_props (file_with (demo_stringify demo_stale)))
       = Returned ()
   \<and> apiKey (fst (snd (ensureAuth demo_env_refresh_fails demo_props
                          (file_with (demo_stringify demo_stale)))))
       = JStr ''tok2''"
proof -
  let ?e = demo_env_refresh_fails
  let ?w = "file_with (demo_stringify demo_stale)"
  let ?ts = "new_TokenSet ?e (JObj demo_stale)"
  let ?refresh = "refreshToken ?e (oauthHost demo_props) (clientId demo_props) ?ts ?w"
  have path: "demo_path = path_join ?e (configDir demo_props) (CREDENTIALS_FILE ?e)"
    by (simp add: demo_env_refresh_fails_def demo_env_def demo_props_def demo_path_def)
  have stored: "files ?w demo_path = Some (demo_stringify demo_stale)"
    by (simp add: file_with_def)
  have readable: "readFileSync_fault ?e (now ?w) demo_path = None"
    by (simp add: demo_env_refresh_fails_def demo_env_def)
  have parsed: "JSON_parse ?e (demo_stringify demo_stale) = Inr (JObj demo_stale)"
    using demo_parse_stale by (simp add: demo_env_refresh_fails_def demo_env_def)
  have ts: "?ts = demo_stale"
    by (simp add: demo_env_refresh_fails_def demo_env_def demo_TokenSet_def)
  have old: "expired ?e (now ?w) ?ts"
    using demo_stale_expired(2) ts by simp
  have refused: "fst ?refresh = Threw (JsError ''invalid_grant'' None)"
    by (simp add: refreshToken_def external_def demo_env_refresh_fails_def demo_env_def Let_def)
  then have refresh: "?refresh = (Threw (JsError ''invalid_grant'' None), snd ?refresh)"
    by (metis prod.collapse)
  have login: "fst (authFlow ?e demo_props (snd ?refresh)) = Returned (JStr ''tok2'')"
    by (simp add: authFlow_def auth_def initial_server_def preserveCredentials_def
        writeFileSync_def deliver_def on_request_def startsWith_opt_def favicon_def
        good_callback_def Let_def demo_env_refresh_fails_def demo_env_def demo_props_def
        demo_login_tokens_def js_or_def get_prop_def split: prod.splits)
  then have flow: "authFlow ?e demo_props (snd ?refresh) =
      (Returned (JStr ''tok2''), snd (authFlow ?e demo_props (snd ?refresh)))"
    by (metis prod.collapse)
  note fact = ensureAuth_refresh_failure_falls_back
    [OF demo_reaches_file path stored readable parsed refl old refresh]
  from fact flow have ended: "ensureAuth ?e demo_props ?w =
      (Returned (),
       demo_props\<lparr>apiKey := JStr ''tok2'', apiClient := getApiClient (JStr ''tok2'') (apiHost demo_props)\<rparr>,
       snd (authFlow ?e demo_props (snd ?refresh)))"
    by blast
  have key: "apiKey (fst (snd (ensureAuth ?e demo_props ?w))) = JStr ''tok2''"
    by (simp add: ended)
  have ret: "fst (ensureAuth ?e demo_props ?w) = Returned ()"
    by (simp add: ended)
  from demo_reaches_file stored parsed old refused ret key show ?thesis
    by (intro conjI)
qed

theorem ensureAuth_login_without_identity_counterexample:
  "reaches_file demo_props
   \<and> files (file_with (demo_stringify demo_stale)) demo_path = Some (demo_stringify demo_stale)
   \<and> JSON_parse demo_env_refresh_and_identity_fail (demo_stringify demo_stale) = Inr (JObj demo_stale)
   \<and> expired demo_env_refresh_and_identity_fail (now (file_with (demo_stringify demo_stale)))
        (new_TokenSet demo_env_refresh_and_identity_fail (JObj demo_stale))
   \<and> fst (refreshToken demo_env_refresh_and_identity_fail (oauthHost demo_props) (clientId demo_props)
             (new_TokenSet demo_env_refresh_and_identity_fail (JObj demo_stale))
             (file_with (demo_stringify demo_stale)))
       = Threw (JsError ''invalid_grant'' None)
   \<and> fst (auth demo_env_refresh_and_identity_fail (oauthHost demo_props) (clientId demo_props)
             (snd (refreshToken demo_env_refresh_and_identity_fail (oauthHost demo_props)
                     (clientId demo_props)
                     (new_TokenSet demo_env_refresh_and_identity_fail (JObj demo_stale))
                     (file_with (demo_stringify demo_stale)))))
       = Returned demo_login_tokens
   \<and> fst (ensureAuth demo_env_refresh_and_identity_fail demo_props
             (file_with (demo_stringify demo_stale)))
       = Threw (JsError ''Request failed with status code 401'' (Some ''ERR_BAD_REQUEST''))"
proof -
  let ?e = demo_env_refresh_and_identity_fail
  let ?w = "file_with (demo_stringify demo_stale)"
  let ?refresh = "refreshToken ?e (oauthHost demo_props) (clientId demo_props)
                    (new_TokenSet ?e (JObj demo_stale)) ?w"
  have stored: "files ?w demo_path = Some (demo_stringify demo_stale)"
    by (simp add: file_with_def)
  have parsed: "JSON_parse ?e (demo_stringify demo_stale) = Inr (JObj demo_stale)"
    using demo_parse_stale
    by (simp add: demo_env_refresh_and_identity_fail_def demo_env_no_identity_def demo_env_def)
  have ts: "new_TokenSet ?e (JObj demo_stale) = demo_stale"
    by (simp add: demo_env_refresh_and_identity_fail_def demo_env_no_identity_def demo_env_def
        demo_TokenSet_def)
  have old: "expired ?e (now ?w) (new_TokenSet ?e (JObj demo_stale))"
    unfolding ts
    by (simp add: demo_env_refresh_and_identity_fail_def demo_env_no_identity_def demo_env_def
        demo_expired_def get_prop_def demo_stale_def)
  have refused: "fst ?refresh = Threw (JsError ''invalid_grant'' None)"
    by (simp add: refreshToken_def external_def demo_env_refresh_and_identity_fail_def
        demo_env_no_identity_def demo_env_def Let_def)
  have logged_in: "fst (auth ?e (oauthHost demo_props) (clientId demo_props) (snd ?refresh))
      = Returned demo_login_tokens"
    by (simp add: auth_def external_def deliver_def on_request_def startsWith_opt_def favicon_def
        good_callback_def initial_server_def Let_def demo_env_refresh_and_identity_fail_def
        demo_env_no_identity_def demo_env_def demo_props_def)
  have thrown: "fst (ensureAuth ?e demo_props ?w)
      = Threw (JsError ''Request failed with status code 401'' (Some ''ERR_BAD_REQUEST''))"
    using parsed old [unfolded ts] starts_login_sentinel
    by (simp add: ensureAuth_def reaches_file_def existsSync_def ensureAuth_try_def
        readFileSync_def refreshToken_def external_def login_then_client_def authFlow_def
        auth_def deliver_def on_request_def startsWith_opt_def favicon_def good_callback_def
        initial_server_def preserveCredentials_def Let_def
        demo_env_refresh_and_identity_fail_def demo_env_no_identity_def demo_env_def
        demo_props_def demo_path_def file_with_def demo_TokenSet_def split: prod.splits)
  from demo_reaches_file stored parsed old refused logged_in thrown
  show ?thesis by (intro conjI)
qed


subsection \<open>Read errors\<close>

text \<open>
  Claim C4. A read error other than the missing-file error ought to be rethrown, as the
  comment in the \<open>catch\<close> clause says. The clause recognises the refresh failure by
  \<open>e.message.includes('AUTH_REFRESH_FAILED')\<close>, and the message of a file-system error
  contains the path: when the configuration directory is named
  \<open>/home/u/AUTH_REFRESH_FAILED\<close>, the permission error \<open>EACCES\<close> of \<open>readFileSync\<close> is
  not rethrown; \<open>ensureAuth\<close> runs the whole login (discovery, listener, browser, code
  exchange, save attempt) and returns. In the directory \<open>/cfg\<close> the same error is rethrown
  and nothing else happens.
\<close>

theorem ensureAuth_permission_error_starts_login:
  "reaches_file demo_props_other_dir
   \<and> path_join demo_env_unreadable (configDir demo_props_other_dir)
         (CREDENTIALS_FILE demo_env_unreadable) = other_path
   \<and> existsSync (other_file_with (demo_stringify demo_cached)) other_path
   \<and> readFileSync_fault demo_env_unreadable (now (other_file_with (demo_stringify demo_cached)))
         other_path = Some (EACCES other_path)
   \<and> is_Error (EACCES other_path) \<and> code (EACCES other_path) = Some ''EACCES''
   \<and> fst (ensureAuth demo_env_unreadable demo_props_other_dir
             (other_file_with (demo_stringify demo_cached))) = Returned ()
   \<and> apiKey (fst (snd (ensureAuth demo_env_unreadable demo_props_other_dir
                          (other_file_with (demo_stringify demo_cached))))) = JStr ''tok2''
   \<and> take 2 (trace (snd (snd (ensureAuth demo_env_unreadable demo_props_other_dir
                                  (other_file_with (demo_stringify demo_cached))))))
       = [Discover ''https://oauth'', Listen 40123]
   \<and> ensureAuth demo_env_unreadable demo_props (file_with (demo_stringify demo_cached))
       = (Threw (EACCES demo_path), demo_props, file_with (demo_stringify demo_cached))"
proof -
  let ?w = "other_file_with (demo_stringify demo_cached)"
  let ?run = "ensureAuth demo_env_unreadable demo_props_other_dir ?w"
  have scope: "reaches_file demo_props_other_dir"
    by (simp add: reaches_file_def demo_props_other_dir_def demo_props_def)
  have path: "path_join demo_env_unreadable (configDir demo_props_other_dir)
         (CREDENTIALS_FILE demo_env_unreadable) = other_path"
    by (simp add: demo_env_unreadable_def demo_env_def demo_props_other_dir_def other_path_def)
  have present: "existsSync ?w other_path"
    by (simp add: existsSync_def other_file_with_def)
  have fault: "readFileSync_fault demo_env_unreadable (now ?w) other_path = Some (EACCES other_path)"
    by (simp add: demo_env_unreadable_def demo_env_def)
  have kind: "is_Error (EACCES other_path)" "code (EACCES other_path) = Some ''EACCES''"
    by (simp_all add: EACCES_def)
  have taken: "starts_login (EACCES other_path)"
    by (simp add: starts_login_def EACCES_def other_path_def)
  have caught: "?run = login_then_client demo_env_unreadable demo_props_other_dir ?w"
    using scope path present fault taken
    by (simp add: ensureAuth_def reaches_file_def ensureAuth_try_def readFileSync_def Let_def)
  have login: "fst (login_then_client demo_env_unreadable demo_props_other_dir ?w) = Returned ()
      \<and> apiKey (fst (snd (login_then_client demo_env_unreadable demo_props_other_dir ?w))) = JStr ''tok2''
      \<and> take 2 (trace (snd (snd (login_then_client demo_env_unreadable demo_props_other_dir ?w))))
          = [Discover ''https://oauth'', Listen 40123]"
    by (simp add: login_then_client_def authFlow_def auth_def initial_server_def
        preserveCredentials_def writeFileSync_def deliver_def on_request_def startsWith_opt_def
        favicon_def good_callback_def Let_def demo_env_unreadable_def demo_env_def
        demo_props_other_dir_def demo_props_def demo_login_tokens_def js_or_def get_prop_def
        other_file_with_def split: prod.splits)
  have passed: "\<not> starts_login (EACCES demo_path)"
    by (simp add: starts_login_def EACCES_def demo_path_def)
  have control: "ensureAuth demo_env_unreadable demo_props (file_with (demo_stringify demo_cached))
       = (Threw (EACCES demo_path), demo_props, file_with (demo_stringify demo_cached))"
    using demo_reaches_file passed
    by (simp add: ensureAuth_def reaches_file_def ensureAuth_try_def readFileSync_def existsSync_def
        Let_def demo_env_unreadable_def demo_env_def demo_props_def demo_path_def file_with_def)
  from scope path present fault kind login [unfolded caught [symmetric]] control
  show ?thesis by (intro conjI) simp_all
qed


subsection \<open>Saving credentials\<close>

text \<open>
  Claim C5. In every call of \<open>preserveCredentials\<close>: when the identity lookup fails, the
  call throws that error, the files are unchanged and the lookup is the only event; and
  whenever the files changed or a write was recorded, the identity lookup had succeeded with
  some \<open>id\<close>, the write came right after it, and the file holds the serialisation of the
  token set with \<open>user_id\<close> set to \<open>id\<close> (every other property as in the token set).
\<close>
theorem preserveCredentials_writes_after_identity:
  assumes "preserveCredentials env path credentials client st = (r, st')"
  shows "(\<forall>e. getCurrentUserInfo env (now st) client = Inl e \<longrightarrow>
            r = Threw e \<and> files st' = files st \<and> events_since st st' = [GetCurrentUserInfo client])
       \<and> ((files st' \<noteq> files st \<or> (\<exists>p c m. WriteFile p c m \<in> set (events_since st st'))) \<longrightarrow>
            (\<exists>id. getCurrentUserInfo env (now st) client = Inr id
               \<and> r = Returned ()
               \<and> files st' = (files st)(path \<mapsto> JSON_stringify env (spread_with credentials ''user_id'' id))
               \<and> events_since st st' =
                   [GetCurrentUserInfo client,
                    WriteFile path (JSON_stringify env (spread_with credentials ''user_id'' id)) 448]
               \<and> get_prop (spread_with credentials ''user_id'' id) ''user_id'' = id
               \<and> (\<forall>k. k \<noteq> ''user_id'' \<longrightarrow>
                     get_prop (spread_with credentials ''user_id'' id) k = get_prop credentials k)))"
proof (cases "getCurrentUserInfo env (now st) client")
  case (Inl e)
  with assms show ?thesis
    by (auto simp: preserveCredentials_def events_since_def)
next
  case (Inr id)
  with assms show ?thesis
    by (auto simp: preserveCredentials_def events_since_def writeFileSync_def Let_def
        get_prop_spread_with split: option.splits)
qed

theorem preserveCredentials_writes_after_identity_witness:
  "getCurrentUserInfo demo_env_no_identity (now no_file) (getApiClient (JStr ''tok2'') ''https://api'')
     = Inl (JsError ''Request failed with status code 401'' (Some ''ERR_BAD_REQUEST''))
   \<and> files (snd (preserveCredentials demo_env_no_identity demo_path demo_login_tokens
                   (getApiClient (JStr ''tok2'') ''https://api'') no_file)) = files no_file
   \<and> files (snd (preserveCredentials demo_env demo_path demo_login_tokens
                   (getApiClient (JStr ''tok2'') ''https://api'') no_file)) \<noteq> files no_file
   \<and> files (snd (preserveCredentials demo_env demo_path demo_login_tokens
                   (getApiClient (JStr ''tok2'') ''https://api'') no_file)) demo_path
       = Some (demo_stringify (spread_with demo_login_tokens ''user_id'' (JStr ''u1'')))"
proof -
  let ?client = "getApiClient (JStr ''tok2'') ''https://api''"
  let ?bad = "preserveCredentials demo_env_no_identity demo_path demo_login_tokens ?client no_file"
  let ?good = "preserveCredentials demo_env demo_path demo_login_tokens ?client no_file"
  have fails: "getCurrentUserInfo demo_env_no_identity (now no_file) ?client
     = Inl (JsError ''Request failed with status code 401'' (Some ''ERR_BAD_REQUEST''))"
    by (simp add: demo_env_no_identity_def demo_env_def)
  have untouched: "files (snd ?bad) = files no_file"
    using preserveCredentials_writes_after_identity
      [of demo_env_no_identity demo_path demo_login_tokens ?client no_file "fst ?bad" "snd ?bad"]
      fails
    by simp
  have changed: "files (snd ?good) \<noteq> files no_file"
    by (simp add: preserveCredentials_def writeFileSync_def demo_env_def no_file_def Let_def
        fun_eq_iff)
  have answer: "getCurrentUserInfo demo_env (now no_file) ?client = Inr (JStr ''u1'')"
    by (simp add: demo_env_def)
  have written: "files (snd ?good) demo_path
       = Some (demo_stringify (spread_with demo_login_tokens ''user_id'' (JStr ''u1'')))"
    using preserveCredentials_writes_after_identity
      [of demo_env demo_path demo_login_tokens ?client no_file "fst ?good" "snd ?good"]
      changed answer
    by (auto simp: demo_env_def no_file_def)
  from fails untouched changed written show ?thesis
    by (intro conjI)
qed


subsection \<open>The loopback receiver\<close>






lemma deliver_events:
  "\<exists>evs. trace (snd (deliver env i c p ck req s)) = trace (snd s) @ evs
     \<and> (\<forall>ev \<in> set evs. receiver_event c p ck ev)"
  by (cases s) (auto simp: deliver_def on_request_def split: sum.splits)

lemma serve_events:
  "\<exists>evs. trace (snd (serve env i c p ck reqs s)) = trace (snd s) @ evs
     \<and> (\<forall>ev \<in> set evs. receiver_event c p ck ev)"
proof (induction reqs arbitrary: s)
  case Nil
  show ?case by simp
next
  case (Cons r rs)
  obtain evs1 where one: "trace (snd (deliver env i c p ck r s)) = trace (snd s) @ evs1"
    "\<forall>ev \<in> set evs1. receiver_event c p ck ev"
    using deliver_events by blast
  obtain evs2 where two:
    "trace (snd (serve env i c p ck rs (deliver env i c p ck r s))) =
       trace (snd (deliver env i c p ck r s)) @ evs2"
    "\<forall>ev \<in> set evs2. receiver_event c p ck ev"
    using Cons.IH by blast
  show ?case
    by (intro exI [of _ "evs1 @ evs2"]) (use one two in auto)
qed





subsection \<open>Unattended runs\<close>

text \<open>
  Claim C7. When \<open>forceAuth\<close> is false and the process runs in CI, \<open>authFlow\<close> throws
  ``Cannot run interactive auth in CI'' at once: the world it returns is the world it was
  given, so no discovery was made, no HTTP listener was started, no browser was opened
  and nothing was written.
\<close>
theorem authFlow_refuses_in_CI:
  "\<not> forceAuth props \<Longrightarrow> isCi env \<Longrightarrow>
   authFlow env props st = (Threw (JsError ''Cannot run interactive auth in CI'' None), st)"
  by (simp add: authFlow_def)

theorem authFlow_refuses_in_CI_witness:
  "\<not> forceAuth demo_props \<and> isCi demo_env_ci \<and>
   authFlow demo_env_ci demo_props no_file =
     (Threw (JsError ''Cannot run interactive auth in CI'' None), no_file) \<and>
   trace no_file = []"
  using authFlow_refuses_in_CI [of demo_props demo_env_ci no_file]
  by (simp add: demo_props_def demo_env_ci_def no_file_def)


subsection \<open>An expired token whose refresh succeeds\<close>





subsection \<open>PKCE\<close>

text \<open>
  Claim C9. In every run of \<open>auth\<close>, with \<open>V\<close> the value \<open>generators.codeVerifier()\<close> gave
  in this run and \<open>S\<close> the value \<open>generators.state()\<close> gave in this run (both after the
  discovery and the listen of this run): the parameters of the authorization URL carry
  \<open>code_challenge = generators.codeChallenge(V)\<close>, the method \<open>S256\<close> and the state \<open>S\<close>,
  and the browser is opened with the URL built from them; every code exchange of the run is
  handed \<open>code_verifier = V\<close> and \<open>state = S\<close>; so the challenge in the URL is
  \<open>generators.codeChallenge\<close> of the verifier of any exchange; and whenever the discovery
  succeeds the URL is built.
\<close>

theorem pkce_challenge_matches_verifier:
  assumes "auth env host cid st = (r, st')"
  shows "(\<forall>c params. AuthorizationUrl c params \<in> set (events_since st st') \<longrightarrow>
            code_challenge params
              = generators_codeChallenge env (generators_codeVerifier env (now st + 2))
            \<and> code_challenge_method params = ''S256''
            \<and> state params = generators_state env (now st + 2)
            \<and> (\<exists>issuer. Issuer_discover env (now st) host = Inr issuer
                 \<and> OpenBrowser (client_authorizationUrl env issuer c params)
                     \<in> set (events_since st st')))
       \<and> (\<forall>c redirect req checks.
            Callback c redirect req checks \<in> set (events_since st st') \<longrightarrow>
            code_verifier checks = generators_codeVerifier env (now st + 2)
            \<and> checks_state checks = generators_state env (now st + 2))
       \<and> (\<forall>c params c' redirect req checks.
            AuthorizationUrl c params \<in> set (events_since st st')
            \<and> Callback c' redirect req checks \<in> set (events_since st st') \<longrightarrow>
            code_challenge params = generators_codeChallenge env (code_verifier checks)
            \<and> state params = checks_state checks)
       \<and> (\<forall>issuer. Issuer_discover env (now st) host = Inr issuer \<longrightarrow>
            (\<exists>c params. AuthorizationUrl c params \<in> set (events_since st st')))"
proof (cases "Issuer_discover env (now st) host")
  case (Inl e)
  with assms have "st' = emit (Discover host) st"
    by (auto simp: auth_def)
  then have "events_since st st' = [Discover host]"
    by (simp add: events_since_def)
  with Inl show ?thesis by simp
next
  case (Inr issuer)
  let ?port = "server_port env (Suc (now st))"
  let ?st2 = "emit (Listen ?port) (emit (Discover host) st)"
  let ?client = "\<lparr>token_endpoint_auth_method = ''none'', client_id = cid,
              redirect_uris = [REDIRECT_URI ?port], response_types = [''code'']\<rparr>"
  let ?verifier = "generators_codeVerifier env (now ?st2)"
  let ?params = "\<lparr>scope = join_with '' '' DEFAULT_SCOPES, state = generators_state env (now ?st2),
              code_challenge = generators_codeChallenge env ?verifier,
              code_challenge_method = ''S256''\<rparr>"
  let ?url = "client_authorizationUrl env issuer ?client ?params"
  let ?st3 = "emit (OpenBrowser ?url) (emit (AuthorizationUrl ?client ?params) ?st2)"
  let ?checks = "\<lparr>code_verifier = ?verifier, checks_state = generators_state env (now ?st2)\<rparr>"
  let ?served = "serve env issuer ?client ?port ?checks (incoming env) (initial_server, ?st3)"
  have end_world: "st' = snd ?served"
    using assms Inr by (auto simp: auth_def Let_def split: option.splits)
  obtain evs where evs: "trace (snd ?served) = trace ?st3 @ evs"
    "\<forall>ev \<in> set evs. receiver_event ?client ?port ?checks ev"
    using serve_events [of env issuer ?client ?port ?checks "incoming env" "(initial_server, ?st3)"]
    by auto
  have since: "events_since st st' =
      [Discover host, Listen ?port, AuthorizationUrl ?client ?params, OpenBrowser ?url] @ evs"
    using end_world evs(1) by (simp add: events_since_def)
  have clock: "now ?st2 = now st + 2"
    by simp
  have url_event: "c = ?client \<and> params = ?params"
    if "AuthorizationUrl c params \<in> set (events_since st st')" for c params
  proof -
    have "AuthorizationUrl c params \<notin> set evs"
      using evs(2) by auto
    with that since show ?thesis by auto
  qed
  have exchange_event: "checks = ?checks"
    if "Callback c redirect req checks \<in> set (events_since st st')" for c redirect req checks
  proof -
    from that since have "Callback c redirect req checks \<in> set evs"
      by simp
    with evs(2) have "receiver_event ?client ?port ?checks (Callback c redirect req checks)"
      by blast
    then show ?thesis by simp
  qed
  have opened: "OpenBrowser ?url \<in> set (events_since st st')"
    and built: "AuthorizationUrl ?client ?params \<in> set (events_since st st')"
    using since by simp_all
  have first: "code_challenge params
              = generators_codeChallenge env (generators_codeVerifier env (now st + 2))
            \<and> code_challenge_method params = ''S256''
            \<and> state params = generators_state env (now st + 2)
            \<and> (\<exists>issuer. Issuer_discover env (now st) host = Inr issuer
                 \<and> OpenBrowser (client_authorizationUrl env issuer c params)
                     \<in> set (events_since st st'))"
    if "AuthorizationUrl c params \<in> set (events_since st st')" for c params
    using url_event [OF that] opened Inr clock by auto
  have second: "code_verifier checks = generators_codeVerifier env (now st + 2)
            \<and> checks_state checks = generators_state env (now st + 2)"
    if "Callback c redirect req checks \<in> set (events_since st st')" for c redirect req checks
    using exchange_event [OF that] clock by simp
  have third: "code_challenge params = generators_codeChallenge env (code_verifier checks)
            \<and> state params = checks_state checks"
    if "AuthorizationUrl c params \<in> set (events_since st st')"
      and "Callback c' redirect req checks \<in> set (events_since st st')"
    for c params c' redirect req checks
    using first [OF that(1)] second [OF that(2)] by simp
  have fourth: "\<exists>c params. AuthorizationUrl c params \<in> set (events_since st st')"
    using built by blast
  show ?thesis
    using first second third fourth by blast
qed

theorem pkce_challenge_matches_verifier_witness:
  "AuthorizationUrl demo_client demo_params
     \<in> set (events_since no_file (snd (auth demo_env ''https://oauth'' ''neonctl'' no_file)))
   \<and> Callback demo_client (REDIRECT_URI 40123) good_callback demo_checks
     \<in> set (events_since no_file (snd (auth demo_env ''https://oauth'' ''neonctl'' no_file)))
   \<and> code_challenge demo_params = generators_codeChallenge demo_env (code_verifier demo_checks)
   \<and> code_challenge demo_params = ''S256:v3r1f13r''
   \<and> code_verifier demo_checks = ''v3r1f13r''
   \<and> state demo_params = checks_state demo_checks"
proof -
  let ?run = "auth demo_env ''https://oauth'' ''neonctl'' no_file"
  have built: "AuthorizationUrl demo_client demo_params \<in> set (events_since no_file (snd ?run))"
    by (simp add: demo_auth_events)
  have exchanged: "Callback demo_client (REDIRECT_URI 40123) good_callback demo_checks
      \<in> set (events_since no_file (snd ?run))"
    by (simp add: demo_auth_events)
  have run: "?run = (fst ?run, snd ?run)"
    by simp
  note fact = pkce_challenge_matches_verifier [OF run, THEN conjunct2, THEN conjunct2,
      THEN conjunct1, rule_format, OF conjI, OF built exchanged]
  have challenge: "code_challenge demo_params = ''S256:v3r1f13r''"
    by (simp add: demo_params_def)
  have verifier: "code_verifier demo_checks = ''v3r1f13r''"
    by (simp add: demo_checks_def)
  from built exchanged fact [THEN conjunct1] challenge verifier fact [THEN conjunct2]
  show ?thesis by (intro conjI)
qed


subsection \<open>A token set without an access token\<close>

text \<open>
  Claim C10, as amended. A token set without a (truthy) \<open>access_token\<close> gets a placeholder.
  On the cached path \<open>ensureAuth\<close> returns with \<open>apiKey = 'UNKNOWN'\<close>. On the refreshed path
  \<open>ensureAuth\<close> sets \<open>apiKey = 'UNKNOWN'\<close>, saves the credentials with a client built from
  \<open>'UNKNOWN'\<close> and, when that save returns, returns with that key. \<open>authFlow\<close> saves the
  credentials with a client built from the empty string and ends as that save ends: when
  the save returns, \<open>authFlow\<close> returns the empty string.
\<close>

theorem access_token_placeholders:
  assumes "path = path_join env (configDir props) (CREDENTIALS_FILE env)"
    and "unknown = props\<lparr>apiKey := JStr ''UNKNOWN'',
                           apiClient := getApiClient (JStr ''UNKNOWN'') (apiHost props)\<rparr>"
  shows "(\<forall>contents parsed tokenSet.
            reaches_file props \<and> files st path = Some contents
            \<and> readFileSync_fault env (now st) path = None \<and> JSON_parse env contents = Inr parsed
            \<and> tokenSet = new_TokenSet env parsed \<and> \<not> expired env (now st) tokenSet
            \<and> \<not> truthy (get_prop tokenSet ''access_token'')
            \<longrightarrow> ensureAuth env props st = (Returned (), unknown, st))
       \<and> (\<forall>contents parsed tokenSet refreshed st2.
            reaches_file props \<and> files st path = Some contents
            \<and> readFileSync_fault env (now st) path = None \<and> JSON_parse env contents = Inr parsed
            \<and> tokenSet = new_TokenSet env parsed \<and> expired env (now st) tokenSet
            \<and> refreshToken env (oauthHost props) (clientId props) tokenSet st = (Returned refreshed, st2)
            \<and> \<not> truthy (get_prop refreshed ''access_token'')
            \<longrightarrow> ensureAuth_try env props path st =
                  (fst (preserveCredentials env path refreshed (apiClient unknown) st2),
                   unknown,
                   snd (preserveCredentials env path refreshed (apiClient unknown) st2))
                \<and> (\<forall>st3. preserveCredentials env path refreshed (apiClient unknown) st2
                            = (Returned (), st3)
                      \<longrightarrow> ensureAuth env props st = (Returned (), unknown, st3)))
       \<and> (\<forall>tokenSet st1.
            (forceAuth props \<or> \<not> isCi env)
            \<and> auth env (oauthHost props) (clientId props) st = (Returned tokenSet, st1)
            \<and> \<not> truthy (get_prop tokenSet ''access_token'')
            \<longrightarrow> authFlow env props st =
                  await (preserveCredentials env path tokenSet (getApiClient (JStr []) (apiHost props)) st1)
                    (\<lambda>u st2. (Returned (JStr []), st2)))"
  using assms
  by (auto simp: ensureAuth_def reaches_file_def existsSync_def ensureAuth_try_def readFileSync_def
      authFlow_def Let_def js_or_def split: prod.splits)

theorem access_token_placeholders_witness:
  "map_of demo_tokenless ''access_token'' = None
   \<and> ensureAuth demo_env demo_props (file_with (demo_stringify demo_tokenless)) =
       (Returned (),
        demo_props\<lparr>apiKey := JStr ''UNKNOWN'',
                   apiClient := getApiClient (JStr ''UNKNOWN'') (apiHost demo_props)\<rparr>,
        file_with (demo_stringify demo_tokenless))
   \<and> fst (refreshToken demo_env_refresh_tokenless (oauthHost demo_props) (clientId demo_props)
             demo_stale (file_with (demo_stringify demo_stale))) = Returned demo_tokenless
   \<and> fst (ensureAuth demo_env_refresh_tokenless demo_props (file_with (demo_stringify demo_stale)))
       = Returned ()
   \<and> apiKey (fst (snd (ensureAuth demo_env_refresh_tokenless demo_props
                          (file_with (demo_stringify demo_stale))))) = JStr ''UNKNOWN''
   \<and> fst (auth demo_env_login_tokenless (oauthHost demo_props) (clientId demo_props) no_file)
       = Returned demo_tokenless
   \<and> fst (authFlow demo_env_login_tokenless demo_props no_file) = Returned (JStr [])"
proof -
  let ?unknown = "demo_props\<lparr>apiKey := JStr ''UNKNOWN'',
                   apiClient := getApiClient (JStr ''UNKNOWN'') (apiHost demo_props)\<rparr>"
  have absent: "map_of demo_tokenless ''access_token'' = None"
    by (simp add: demo_tokenless_def)
  \<comment> \<open>the cached path\<close>
  let ?w1 = "file_with (demo_stringify demo_tokenless)"
  have stored1: "files ?w1 demo_path = Some (demo_stringify demo_tokenless)"
    by (simp add: file_with_def)
  have readable1: "readFileSync_fault demo_env (now ?w1) demo_path = None"
    by (simp add: demo_env_def)
  have ts1: "demo_tokenless = new_TokenSet demo_env (JObj demo_tokenless)"
    by (simp add: demo_env_def demo_TokenSet_def)
  have cached: "ensureAuth demo_env demo_props ?w1 = (Returned (), ?unknown, ?w1)"
  proof (rule access_token_placeholders
      [OF demo_path_is [symmetric] refl, THEN conjunct1, rule_format])
    from demo_reaches_file stored1 readable1 demo_parse_tokenless ts1 demo_tokenless_fresh
      demo_tokenless_no_token
    show "reaches_file demo_props \<and> files ?w1 demo_path = Some (demo_stringify demo_tokenless)
        \<and> readFileSync_fault demo_env (now ?w1) demo_path = None
        \<and> JSON_parse demo_env (demo_stringify demo_tokenless) = Inr (JObj demo_tokenless)
        \<and> demo_tokenless = new_TokenSet demo_env (JObj demo_tokenless)
        \<and> \<not> expired demo_env (now ?w1) demo_tokenless
        \<and> \<not> truthy (get_prop demo_tokenless ''access_token'')"
      by (intro conjI)
  qed
  \<comment> \<open>the refreshed path\<close>
  let ?e2 = demo_env_refresh_tokenless
  let ?w2 = "file_with (demo_stringify demo_stale)"
  let ?refresh = "refreshToken ?e2 (oauthHost demo_props) (clientId demo_props) demo_stale ?w2"
  have path2: "demo_path = path_join ?e2 (configDir demo_props) (CREDENTIALS_FILE ?e2)"
    by (simp add: demo_env_refresh_tokenless_def demo_env_def demo_props_def demo_path_def)
  have stored2: "files ?w2 demo_path = Some (demo_stringify demo_stale)"
    by (simp add: file_with_def)
  have readable2: "readFileSync_fault ?e2 (now ?w2) demo_path = None"
    by (simp add: demo_env_refresh_tokenless_def demo_env_def)
  have parsed2: "JSON_parse ?e2 (demo_stringify demo_stale) = Inr (JObj demo_stale)"
    using demo_parse_stale by (simp add: demo_env_refresh_tokenless_def demo_env_def)
  have ts2: "demo_stale = new_TokenSet ?e2 (JObj demo_stale)"
    by (simp add: demo_env_refresh_tokenless_def demo_env_def demo_TokenSet_def)
  have renewed: "fst ?refresh = Returned demo_tokenless"
    by (simp add: refreshToken_def external_def demo_env_refresh_tokenless_def demo_env_def Let_def)
  then obtain st2 where refresh: "?refresh = (Returned demo_tokenless, st2)"
    by (cases ?refresh) simp
  have "fst (preserveCredentials ?e2 demo_path demo_tokenless (apiClient ?unknown) st2) = Returned ()"
    by (simp add: preserveCredentials_def external_def writeFileSync_def Let_def
        demo_env_refresh_tokenless_def demo_env_def)
  then obtain st3 where saved:
    "preserveCredentials ?e2 demo_path demo_tokenless (apiClient ?unknown) st2 = (Returned (), st3)"
    by (cases "preserveCredentials ?e2 demo_path demo_tokenless (apiClient ?unknown) st2") simp
  have both: "ensureAuth_try ?e2 demo_props demo_path ?w2 =
        (fst (preserveCredentials ?e2 demo_path demo_tokenless (apiClient ?unknown) st2), ?unknown,
         snd (preserveCredentials ?e2 demo_path demo_tokenless (apiClient ?unknown) st2))
      \<and> (\<forall>st3. preserveCredentials ?e2 demo_path demo_tokenless (apiClient ?unknown) st2
                  = (Returned (), st3)
            \<longrightarrow> ensureAuth ?e2 demo_props ?w2 = (Returned (), ?unknown, st3))"
  proof (rule access_token_placeholders
      [OF path2 refl, THEN conjunct2, THEN conjunct1, rule_format])
    from demo_reaches_file stored2 readable2 parsed2 ts2 demo_stale_expired(3) refresh
      demo_tokenless_no_token
    show "reaches_file demo_props \<and> files ?w2 demo_path = Some (demo_stringify demo_stale)
        \<and> readFileSync_fault ?e2 (now ?w2) demo_path = None
        \<and> JSON_parse ?e2 (demo_stringify demo_stale) = Inr (JObj demo_stale)
        \<and> demo_stale = new_TokenSet ?e2 (JObj demo_stale)
        \<and> expired ?e2 (now ?w2) demo_stale
        \<and> refreshToken ?e2 (oauthHost demo_props) (clientId demo_props) demo_stale ?w2
            = (Returned demo_tokenless, st2)
        \<and> \<not> truthy (get_prop demo_tokenless ''access_token'')"
      by (intro conjI)
  qed
  from both [THEN conjunct2, rule_format, OF saved]
  have refreshed: "ensureAuth ?e2 demo_props ?w2 = (Returned (), ?unknown, st3)" .
  \<comment> \<open>the login\<close>
  let ?e3 = demo_env_login_tokenless
  let ?login = "auth ?e3 (oauthHost demo_props) (clientId demo_props) no_file"
  have path3: "demo_path = path_join ?e3 (configDir demo_props) (CREDENTIALS_FILE ?e3)"
    by (simp add: demo_env_login_tokenless_def demo_env_def demo_props_def demo_path_def)
  have allowed: "forceAuth demo_props \<or> \<not> isCi ?e3"
    by (simp add: demo_env_login_tokenless_def demo_env_def)
  have logged_in: "fst ?login = Returned demo_tokenless"
    by (simp add: auth_def external_def deliver_def on_request_def startsWith_opt_def favicon_def
        good_callback_def initial_server_def Let_def demo_env_login_tokenless_def demo_env_def
        demo_props_def)
  then obtain st1 where login: "?login = (Returned demo_tokenless, st1)"
    by (cases ?login) simp
  have "fst (preserveCredentials ?e3 demo_path demo_tokenless
               (getApiClient (JStr []) (apiHost demo_props)) st1) = Returned ()"
    by (simp add: preserveCredentials_def external_def writeFileSync_def Let_def
        demo_env_login_tokenless_def demo_env_def)
  then obtain st4 where saved3:
    "preserveCredentials ?e3 demo_path demo_tokenless
       (getApiClient (JStr []) (apiHost demo_props)) st1 = (Returned (), st4)"
    by (cases "preserveCredentials ?e3 demo_path demo_tokenless
                 (getApiClient (JStr []) (apiHost demo_props)) st1") simp
  have "authFlow ?e3 demo_props no_file =
      await (preserveCredentials ?e3 demo_path demo_tokenless
               (getApiClient (JStr []) (apiHost demo_props)) st1)
        (\<lambda>u st2. (Returned (JStr []), st2))"
  proof (rule access_token_placeholders
      [OF path3 refl, THEN conjunct2, THEN conjunct2, rule_format])
    from allowed login demo_tokenless_no_token
    show "(forceAuth demo_props \<or> \<not> isCi ?e3)
        \<and> auth ?e3 (oauthHost demo_props) (clientId demo_props) no_file = (Returned demo_tokenless, st1)
        \<and> \<not> truthy (get_prop demo_tokenless ''access_token'')"
      by (intro conjI)
  qed
  then have flow: "authFlow ?e3 demo_props no_file = (Returned (JStr []), st4)"
    by (simp add: saved3)
  have r2: "fst (ensureAuth ?e2 demo_props ?w2) = Returned ()"
    and k2: "apiKey (fst (snd (ensureAuth ?e2 demo_props ?w2))) = JStr ''UNKNOWN''"
    by (simp_all add: refreshed)
  have r3: "fst (authFlow ?e3 demo_props no_file) = Returned (JStr [])"
    by (simp add: flow)
  from absent cached renewed r2 k2 logged_in r3 show ?thesis
    by (intro conjI)
qed

theorem authFlow_tokenless_without_identity_counterexample:
  "\<not> isCi demo_env_tokenless_no_identity
   \<and> fst (auth demo_env_tokenless_no_identity (oauthHost demo_props) (clientId demo_props) no_file)
       = Returned demo_tokenless
   \<and> map_of demo_tokenless ''access_token'' = None
   \<and> fst (authFlow demo_env_tokenless_no_identity demo_props no_file)
       = Threw (JsError ''Request failed with status code 401'' (Some ''ERR_BAD_REQUEST''))
   \<and> fst (authFlow demo_env_tokenless_no_identity demo_props no_file) \<noteq> Returned (JStr [])"
proof -
  let ?e = demo_env_tokenless_no_identity
  have allowed: "\<not> isCi ?e"
    by (simp add: demo_env_tokenless_no_identity_def demo_env_no_identity_def demo_env_def)
  have logged_in: "fst (auth ?e (oauthHost demo_props) (clientId demo_props) no_file)
      = Returned demo_tokenless"
    by (simp add: auth_def external_def deliver_def on_request_def startsWith_opt_def favicon_def
        good_callback_def initial_server_def Let_def demo_env_tokenless_no_identity_def
        demo_env_no_identity_def demo_env_def demo_props_def)
  have absent: "map_of demo_tokenless ''access_token'' = None"
    by (simp add: demo_tokenless_def)
  have thrown: "fst (authFlow ?e demo_props no_file)
      = Threw (JsError ''Request failed with status code 401'' (Some ''ERR_BAD_REQUEST''))"
    by (simp add: authFlow_def auth_def external_def deliver_def on_request_def
        startsWith_opt_def favicon_def good_callback_def initial_server_def
        preserveCredentials_def Let_def demo_env_tokenless_no_identity_def
        demo_env_no_identity_def demo_env_def demo_props_def split: prod.splits)
  have other: "fst (authFlow ?e demo_props no_file) \<noteq> Returned (JStr [])"
    by (simp add: thrown)
  from allowed logged_in absent thrown other show ?thesis
    by (intro conjI)
qed

end
